theory Spec2Isabelle
  imports Main "HOL-Library.AList"
begin

section \<open>Effects, promises and what a request handler hands back\<close>

text \<open>
  Both servers build their operations as \<open>Effect\<close> values and run them inside the
  handler of the \<open>call_tool\<close> request. Running an effect ends in one of three ways: with a
  value, with a typed failure (\<open>Effect.fail\<close>, or the \<open>catch\<close> arm of
  \<open>Effect.tryPromise\<close>), or with a defect: a \<open>throw\<close> inside \<open>Effect.sync\<close> or inside
  the generator of \<open>Effect.gen\<close>.
\<close>

datatype ('e, 'a) Exit = Success 'a | Failure 'e | Die 'e

text \<open>A promise of the Slack client either resolves with a response or rejects; the
  rejection carries \<open>String(e)\<close> of its reason, the only thing the code reads from it.\<close>

datatype 'a Promise = Resolved 'a | Rejected string

text \<open>An \<open>async\<close> request handler either returns a response or throws (its promise
  rejects) with a fault that the caller of the handler, the protocol library, receives.\<close>

datatype ('f, 'r) Completion = Returned 'r | Thrown 'f

text \<open>The error codes of the protocol library's \<open>ErrorCode\<close> enumeration.\<close>

datatype ErrorCode =
    ConnectionClosed | RequestTimeout | ParseError | InvalidRequest
  | MethodNotFound | InvalidParams | InternalError

text \<open>An \<open>McpError\<close> carries one of these codes and a message.\<close>

datatype 'm McpError = McpError ErrorCode 'm

section \<open>The memory-store server\<close>

subsection \<open>Values and the store\<close>

text \<open>
  The store is declared \<open>Map<string, string>\<close> and the handler reads its arguments with an
  unchecked cast to \<open>{ key: string; value: string }\<close>, so a field that the caller leaves
  out arrives as \<open>undefined\<close>. A value is therefore a string or \<open>undefined\<close> (\<open>None\<close>).
  A JavaScript \<open>Map\<close> keeps its entries in insertion order; \<open>set\<close> on a key that is
  present replaces the value in place.
\<close>

type_synonym jsstring = "string option"

type_synonym Store = "(jsstring \<times> jsstring) list"

text \<open>
  The messages of the server are Japanese template strings; they are kept as templates:
  \<open>KeyNotFound key\<close> is the text "key not found: " followed by the key, and
  \<open>UnknownTool name\<close> the text "unknown tool: " followed by the name.
\<close>

datatype McpMessage = KeyNotFound jsstring | UnknownTool string

type_synonym MemoryError = "McpMessage McpError"

definition Map_has :: "jsstring \<Rightarrow> Store \<Rightarrow> bool" where
  "Map_has key store = (key \<in> set (map fst store))"

definition Map_get :: "jsstring \<Rightarrow> Store \<Rightarrow> jsstring" where
  \<comment> \<open>\<open>Map.prototype.get\<close>: \<open>undefined\<close> for a key that is absent\<close>
  "Map_get key store = (case map_of store key of None \<Rightarrow> None | Some v \<Rightarrow> v)"

definition Map_invariant :: "Store \<Rightarrow> bool" where
  \<comment> \<open>a \<open>Map\<close> holds one entry per key\<close>
  "Map_invariant store = distinct (map fst store)"

subsection \<open>\<open>MemoryStoreImpl\<close>\<close>

definition MemoryStoreImpl_new :: Store where
  "MemoryStoreImpl_new = []"

definition MemoryStoreImpl_set ::
  "jsstring \<Rightarrow> jsstring \<Rightarrow> Store \<Rightarrow> (MemoryError, unit) Exit \<times> Store" where
  "MemoryStoreImpl_set key val store = (Success (), AList.update key val store)"

definition MemoryStoreImpl_get ::
  "jsstring \<Rightarrow> Store \<Rightarrow> (MemoryError, string) Exit \<times> Store" where
  "MemoryStoreImpl_get key store =
     (case Map_get key store of
        None \<Rightarrow> (Die (McpError InvalidRequest (KeyNotFound key)), store)
      | Some v \<Rightarrow> (Success v, store))"

definition MemoryStoreImpl_delete ::
  "jsstring \<Rightarrow> Store \<Rightarrow> (MemoryError, unit) Exit \<times> Store" where
  "MemoryStoreImpl_delete key store =
     (if \<not> Map_has key store
      then (Die (McpError InvalidRequest (KeyNotFound key)), store)
      else (Success (), AList.delete key store))"

text \<open>
  \<open>Object.fromEntries\<close> writes the entries into a fresh object in order, so a later
  entry overwrites an earlier one with the same property key; the key \<open>undefined\<close>
  becomes the property \<open>"undefined"\<close>. The object is kept as an association list
  (the enumeration order of its properties is not part of the model).
\<close>

type_synonym Record = "(string \<times> jsstring) list"

fun toPropertyKey :: "jsstring \<Rightarrow> string" where
  "toPropertyKey None = ''undefined''"
| "toPropertyKey (Some s) = s"

definition fromEntries :: "Store \<Rightarrow> Record" where
  "fromEntries entries =
     fold (\<lambda>(k, v) obj. AList.update (toPropertyKey k) v obj) entries []"

definition MemoryStoreImpl_list :: "Store \<Rightarrow> (MemoryError, Record) Exit \<times> Store" where
  "MemoryStoreImpl_list store = (Success (fromEntries store), store)"

subsection \<open>The \<open>call_tool\<close> handler of the memory-store server\<close>

text \<open>
  The text of a response: a confirmation message given by the caller of \<open>handleEffect\<close>,
  or \<open>JSON.stringify(result, null, 2)\<close>, kept as the value that is serialised.
\<close>

datatype ResultValue = VoidResult | StringResult string | RecordResult Record

datatype ContentText =
    SavedMessage jsstring jsstring
  | DeletedMessage jsstring
  | Stringified ResultValue

record MemoryResponse =
  content :: ContentText

text \<open>
  What the handler can throw: the failure that \<open>Effect.runSync\<close> raises for an effect
  that did not succeed (it carries the error of the effect), an \<open>McpError\<close> thrown by
  the handler itself, and the \<open>TypeError\<close> of destructuring \<open>undefined\<close>.
\<close>

datatype MemoryFault =
    FiberFailure MemoryError
  | ThrownMcpError MemoryError
  | TypeError

definition handleEffect ::
  "('a \<Rightarrow> ResultValue) \<Rightarrow> (MemoryError, 'a) Exit \<Rightarrow> ContentText option
     \<Rightarrow> (MemoryFault, MemoryResponse) Completion" where
  "handleEffect json exit successMessage =
     (case exit of
        Success result \<Rightarrow>
          Returned \<lparr>content = (case successMessage of
                                 Some m \<Rightarrow> m
                               | None \<Rightarrow> Stringified (json result))\<rparr>
      | Failure e \<Rightarrow> Thrown (FiberFailure e)
      | Die e \<Rightarrow> Thrown (FiberFailure e))"

text \<open>
  The arguments of a request: a JSON object, given by its fields (each name once), or
  nothing at all. The fields that are present hold strings, as the cast of the handler
  says; the handler does not check that a field is present.
\<close>

type_synonym MemoryArguments = "(string \<times> string) list option"

definition memory_callTool ::
  "string \<Rightarrow> MemoryArguments \<Rightarrow> Store
     \<Rightarrow> (MemoryFault, MemoryResponse) Completion \<times> Store" where
  "memory_callTool name arguments store =
     (if name = ''set_value'' then
        (case arguments of
           None \<Rightarrow> (Thrown TypeError, store)
         | Some args \<Rightarrow>
             let key = map_of args ''key'';
                 val = map_of args ''value'';
                 (exit, store') = MemoryStoreImpl_set key val store
             in (handleEffect (\<lambda>_. VoidResult) exit (Some (SavedMessage key val)), store'))
      else if name = ''get_value'' then
        (case arguments of
           None \<Rightarrow> (Thrown TypeError, store)
         | Some args \<Rightarrow>
             let key = map_of args ''key'';
                 (exit, store') = MemoryStoreImpl_get key store
             in (handleEffect StringResult exit None, store'))
      else if name = ''delete_value'' then
        (case arguments of
           None \<Rightarrow> (Thrown TypeError, store)
         | Some args \<Rightarrow>
             let key = map_of args ''key'';
                 (exit, store') = MemoryStoreImpl_delete key store
             in (handleEffect (\<lambda>_. VoidResult) exit (Some (DeletedMessage key)), store'))
      else if name = ''list_values'' then
        (let (exit, store') = MemoryStoreImpl_list store
         in (handleEffect RecordResult exit None, store'))
      else (Thrown (ThrownMcpError (McpError MethodNotFound (UnknownTool name))), store))"


section \<open>The Slack server\<close>

subsection \<open>Responses of the Slack client\<close>

text \<open>
  Every response of the Web API has \<open>ok\<close> and an optional \<open>error\<close>; the records below
  extend it with the fields that the server reads. An optional field is an \<open>option\<close>.
\<close>

record SlackResponse =
  ok :: bool
  error :: "string option"

record AuthTestResponse = SlackResponse +
  user_id :: "string option"

record Channel =
  channel_id :: "string option"
  channel_name :: "string option"
  is_private :: "bool option"
  num_members :: "nat option"

record ConversationsInfoResponse = SlackResponse +
  channel :: "Channel option"

record ConversationsMembersResponse = SlackResponse +
  members :: "string list option"

record ChatPostMessageResponse = SlackResponse +
  post_ts :: "string option"
  post_channel :: "string option"

record Message =
  msg_text :: "string option"
  msg_user :: "string option"
  msg_ts :: "string option"
  msg_thread_ts :: "string option"

record ConversationsHistoryResponse = SlackResponse +
  messages :: "Message list option"

record ConversationsListResponse = SlackResponse +
  channels :: "Channel list option"

record Member =
  member_id :: "string option"
  member_name :: "string option"
  real_name :: "string option"
  is_bot :: "bool option"

record UsersListResponse = SlackResponse +
  list_members :: "Member list option"

subsection \<open>The client, the workspace behind it, and the calls made\<close>

text \<open>
  The workspace that the client talks to is a state \<open>'w\<close> outside the program: every
  call of the client reads it and may change it, and so may the passing of time
  (\<open>elapse\<close>, in milliseconds). The run of an operation carries the workspace and the
  list of the calls and waits made so far, oldest first.
\<close>

datatype SlackCall =
    AuthTest
  | ConversationsInfo string
  | ConversationsMembers string
  | ConversationsInvite string string
  | ConversationsJoin string
  | Sleep nat
  | ChatPostMessage string string
  | ConversationsHistory string nat
  | ConversationsList "int option"
  | UsersList "int option"

record 'w WebClient =
  auth_test :: "'w \<Rightarrow> AuthTestResponse Promise \<times> 'w"
  conversations_info :: "string \<Rightarrow> 'w \<Rightarrow> ConversationsInfoResponse Promise \<times> 'w"
  conversations_members :: "string \<Rightarrow> 'w \<Rightarrow> ConversationsMembersResponse Promise \<times> 'w"
  conversations_invite :: "string \<Rightarrow> string \<Rightarrow> 'w \<Rightarrow> SlackResponse Promise \<times> 'w"
  conversations_join :: "string \<Rightarrow> 'w \<Rightarrow> SlackResponse Promise \<times> 'w"
  chat_postMessage :: "string \<Rightarrow> string \<Rightarrow> 'w \<Rightarrow> ChatPostMessageResponse Promise \<times> 'w"
  conversations_history :: "string \<Rightarrow> nat \<Rightarrow> 'w \<Rightarrow> ConversationsHistoryResponse Promise \<times> 'w"
  conversations_list :: "int option \<Rightarrow> 'w \<Rightarrow> ConversationsListResponse Promise \<times> 'w"
  users_list :: "int option \<Rightarrow> 'w \<Rightarrow> UsersListResponse Promise \<times> 'w"
  elapse :: "nat \<Rightarrow> 'w \<Rightarrow> 'w"

datatype SlackError = SlackError string

fun message :: "SlackError \<Rightarrow> string" where
  "message (SlackError m) = m"

type_synonym 'w Run = "'w \<times> SlackCall list"

type_synonym ('w, 'a) Effect = "'w Run \<Rightarrow> (SlackError, 'a) Exit \<times> 'w Run"

definition succeed :: "'a \<Rightarrow> ('w, 'a) Effect" where
  "succeed a = (\<lambda>run. (Success a, run))"

definition die :: "SlackError \<Rightarrow> ('w, 'a) Effect" where
  \<comment> \<open>a \<open>throw\<close> inside the generator of \<open>Effect.gen\<close>\<close>
  "die e = (\<lambda>run. (Die e, run))"

definition flatMap :: "('w, 'a) Effect \<Rightarrow> ('a \<Rightarrow> ('w, 'b) Effect) \<Rightarrow> ('w, 'b) Effect" where
  \<comment> \<open>\<open>yield*\<close> inside \<open>Effect.gen\<close>: the rest runs only after a success\<close>
  "flatMap m f =
     (\<lambda>run. case m run of
        (Success a, run') \<Rightarrow> f a run'
      | (Failure e, run') \<Rightarrow> (Failure e, run')
      | (Die e, run') \<Rightarrow> (Die e, run'))"

definition effect_map :: "('a \<Rightarrow> 'b) \<Rightarrow> ('w, 'a) Effect \<Rightarrow> ('w, 'b) Effect" where
  "effect_map f m = flatMap m (\<lambda>a. succeed (f a))"

definition tryPromise ::
  "SlackCall \<Rightarrow> ('w \<Rightarrow> 'r Promise \<times> 'w) \<Rightarrow> (string \<Rightarrow> SlackError) \<Rightarrow> ('w, 'r) Effect" where
  \<comment> \<open>\<open>Effect.tryPromise({try, catch})\<close> around one call of the client\<close>
  "tryPromise call try catch =
     (\<lambda>(w, calls). case try w of
        (Resolved r, w') \<Rightarrow> (Success r, (w', calls @ [call]))
      | (Rejected e, w') \<Rightarrow> (Failure (catch e), (w', calls @ [call])))"

definition sleep :: "'w WebClient \<Rightarrow> nat \<Rightarrow> ('w, unit) Effect" where
  \<comment> \<open>\<open>Effect.sleep(Duration.millis(ms))\<close>\<close>
  "sleep api ms = (\<lambda>(w, calls). (Success (), (elapse api ms w, calls @ [Sleep ms])))"

subsection \<open>The service\<close>

definition error_or_unknown :: "'z SlackResponse_scheme \<Rightarrow> string" where
  \<comment> \<open>\<open>response.error || "Unknown Slack error"\<close>\<close>
  "error_or_unknown response =
     (case error response of
        None \<Rightarrow> ''Unknown Slack error''
      | Some e \<Rightarrow> if e = [] then ''Unknown Slack error'' else e)"

definition handleSlackResponse ::
  "('z SlackResponse_scheme) \<Rightarrow> ('w, 'z SlackResponse_scheme) Effect" where
  "handleSlackResponse response =
     (if \<not> ok response
      then die (SlackError (error_or_unknown response))
      else succeed response)"

definition ensureChannelAccess :: "'w WebClient \<Rightarrow> string \<Rightarrow> ('w, unit) Effect" where
  "ensureChannelAccess api channelId =
     flatMap (tryPromise AuthTest (auth_test api)
               (\<lambda>e. SlackError (''Auth test failed: '' @ e))) (\<lambda>authTest.
     flatMap (handleSlackResponse authTest) (\<lambda>botInfo.
     case user_id botInfo of
       None \<Rightarrow> die (SlackError ''Bot user ID not found'')
     | Some botId \<Rightarrow>
         if botId = [] then die (SlackError ''Bot user ID not found'')
         else
     flatMap (tryPromise (ConversationsInfo channelId) (conversations_info api channelId)
               (\<lambda>e. SlackError (''Channel info failed: '' @ e))) (\<lambda>channelInfo.
     flatMap (handleSlackResponse channelInfo) (\<lambda>validChannelInfo.
     flatMap (tryPromise (ConversationsMembers channelId) (conversations_members api channelId)
               (\<lambda>e. SlackError (''Get members failed: '' @ e))) (\<lambda>membersResult.
     flatMap (handleSlackResponse membersResult) (\<lambda>membersOk.
     case members membersOk of
       None \<Rightarrow> succeed ()
     | Some ms \<Rightarrow>
         if botId \<in> set ms then succeed ()
         else
           (case channel validChannelInfo of
              None \<Rightarrow> die (SlackError ''Channel information not found'')
            | Some ch \<Rightarrow>
                flatMap
                  (if is_private ch = Some True
                   then tryPromise (ConversationsInvite channelId botId)
                          (conversations_invite api channelId botId)
                          (\<lambda>e. SlackError (''Join channel failed: '' @ e))
                   else tryPromise (ConversationsJoin channelId)
                          (conversations_join api channelId)
                          (\<lambda>e. SlackError (''Join channel failed: '' @ e))) (\<lambda>joinResult.
                flatMap (handleSlackResponse joinResult) (\<lambda>_.
                sleep api 2000)))))))))"

record SendMessageArgs =
  arg_channel :: string
  arg_text :: string

record SendMessageResult =
  status :: string
  result_ts :: string
  result_channel :: string

definition sendMessage :: "'w WebClient \<Rightarrow> SendMessageArgs \<Rightarrow> ('w, SendMessageResult) Effect" where
  "sendMessage api args =
     flatMap (ensureChannelAccess api (arg_channel args)) (\<lambda>_.
     flatMap (tryPromise (ChatPostMessage (arg_channel args) (arg_text args))
               (chat_postMessage api (arg_channel args) (arg_text args))
               (\<lambda>e. SlackError (''Send message failed: '' @ e))) (\<lambda>result.
     flatMap (handleSlackResponse result) (\<lambda>response.
     case (post_ts response, post_channel response) of
       (Some t, Some c) \<Rightarrow>
         if t = [] \<or> c = [] then die (SlackError ''Invalid response from Slack API'')
         else succeed \<lparr>status = ''success'', result_ts = t, result_channel = c\<rparr>
     | _ \<Rightarrow> die (SlackError ''Invalid response from Slack API''))))"

definition getLatestMessage :: "'w WebClient \<Rightarrow> string \<Rightarrow> ('w, Message) Effect" where
  "getLatestMessage api channelId =
     flatMap (ensureChannelAccess api channelId) (\<lambda>_.
     flatMap (tryPromise (ConversationsHistory channelId 1)
               (conversations_history api channelId 1)
               (\<lambda>e. SlackError (''Get latest message failed: '' @ e))) (\<lambda>result.
     flatMap (handleSlackResponse result) (\<lambda>response.
     case messages response of
       None \<Rightarrow> succeed \<lparr>msg_text = Some ''No messages found in the channel'',
                         msg_user = None, msg_ts = None, msg_thread_ts = None\<rparr>
     | Some [] \<Rightarrow> succeed \<lparr>msg_text = Some ''No messages found in the channel'',
                            msg_user = None, msg_ts = None, msg_thread_ts = None\<rparr>
     | Some (m # _) \<Rightarrow> succeed \<lparr>msg_text = msg_text m, msg_user = msg_user m,
                                 msg_ts = msg_ts m, msg_thread_ts = msg_thread_ts m\<rparr>)))"

record ChannelInfo =
  info_id :: string
  info_name :: string
  info_is_private :: bool
  info_num_members :: "nat option"

definition or_empty :: "string option \<Rightarrow> string" where
  \<comment> \<open>\<open>x ?? ''\<close>\<close>
  "or_empty x = (case x of None \<Rightarrow> [] | Some s \<Rightarrow> s)"

definition listChannels :: "'w WebClient \<Rightarrow> int option \<Rightarrow> ('w, ChannelInfo list) Effect" where
  "listChannels api limit =
     flatMap (tryPromise (ConversationsList limit) (conversations_list api limit)
               (\<lambda>e. SlackError (''List channels failed: '' @ e))) (\<lambda>result.
     flatMap (handleSlackResponse result) (\<lambda>response.
     case channels response of
       None \<Rightarrow> succeed []
     | Some cs \<Rightarrow>
         succeed (filter (\<lambda>c. info_id c \<noteq> [] \<and> info_name c \<noteq> [])
                   (map (\<lambda>c. \<lparr>info_id = or_empty (channel_id c), info_name = or_empty (channel_name c),
                               info_is_private = (is_private c = Some True),
                               info_num_members = num_members c\<rparr>) cs))))"

record UserInfo =
  user_info_id :: string
  user_info_name :: string
  user_info_real_name :: "string option"
  user_info_is_bot :: "bool option"

definition listUsers :: "'w WebClient \<Rightarrow> int option \<Rightarrow> ('w, UserInfo list) Effect" where
  "listUsers api limit =
     flatMap (tryPromise (UsersList limit) (users_list api limit)
               (\<lambda>e. SlackError (''List users failed: '' @ e))) (\<lambda>result.
     flatMap (handleSlackResponse result) (\<lambda>response.
     case list_members response of
       None \<Rightarrow> succeed []
     | Some us \<Rightarrow>
         succeed (filter (\<lambda>u. user_info_id u \<noteq> [] \<and> user_info_name u \<noteq> [])
                   (map (\<lambda>u. \<lparr>user_info_id = or_empty (member_id u),
                               user_info_name = or_empty (member_name u),
                               user_info_real_name = real_name u,
                               user_info_is_bot = is_bot u\<rparr>) us))))"

subsection \<open>Argument schemas\<close>

text \<open>
  The arguments of a request are a JSON object, or are left out altogether. The Slack
  server checks them with schemas of the validation library: \<open>z.object\<close> with
  \<open>z.string()\<close> and \<open>z.number().optional()\<close> fields. \<open>parse\<close> returns the typed
  arguments or throws an error that lists one issue for every field that fails, each
  with the path of the field, the type expected and the type received.
\<close>

datatype jsvalue = JNull | JBool bool | JNumber int | JString string

type_synonym SlackArguments = "(string \<times> jsvalue) list option"

datatype ZodIssue = ZodIssue "string list" string string

fun typeName :: "jsvalue option \<Rightarrow> string" where
  "typeName None = ''undefined''"
| "typeName (Some JNull) = ''null''"
| "typeName (Some (JBool b)) = ''boolean''"
| "typeName (Some (JNumber n)) = ''number''"
| "typeName (Some (JString s)) = ''string''"

fun z_string :: "string \<Rightarrow> jsvalue option \<Rightarrow> ZodIssue list + string" where
  "z_string field (Some (JString s)) = Inr s"
| "z_string field v = Inl [ZodIssue [field] ''string'' (typeName v)]"

fun z_number_optional :: "string \<Rightarrow> jsvalue option \<Rightarrow> ZodIssue list + int option" where
  "z_number_optional field None = Inr None"
| "z_number_optional field (Some (JNumber n)) = Inr (Some n)"
| "z_number_optional field v = Inl [ZodIssue [field] ''number'' (typeName v)]"

fun issues :: "ZodIssue list + 'a \<Rightarrow> ZodIssue list" where
  "issues (Inl is) = is"
| "issues (Inr a) = []"

definition SendMessageSchema_parse :: "SlackArguments \<Rightarrow> ZodIssue list + SendMessageArgs" where
  "SendMessageSchema_parse arguments =
     (case arguments of
        None \<Rightarrow> Inl [ZodIssue [] ''object'' ''undefined'']
      | Some obj \<Rightarrow>
          (case (z_string ''channel'' (map_of obj ''channel''),
                 z_string ''text'' (map_of obj ''text'')) of
             (Inr c, Inr t) \<Rightarrow> Inr \<lparr>arg_channel = c, arg_text = t\<rparr>
           | (c, t) \<Rightarrow> Inl (issues c @ issues t)))"

definition ListChannelsSchema_parse :: "SlackArguments \<Rightarrow> ZodIssue list + int option" where
  "ListChannelsSchema_parse arguments =
     (case arguments of
        None \<Rightarrow> Inl [ZodIssue [] ''object'' ''undefined'']
      | Some obj \<Rightarrow> z_number_optional ''limit'' (map_of obj ''limit''))"

definition ListUsersSchema_parse :: "SlackArguments \<Rightarrow> ZodIssue list + int option" where
  "ListUsersSchema_parse arguments =
     (case arguments of
        None \<Rightarrow> Inl [ZodIssue [] ''object'' ''undefined'']
      | Some obj \<Rightarrow> z_number_optional ''limit'' (map_of obj ''limit''))"

definition GetLatestMessageSchema_parse :: "SlackArguments \<Rightarrow> ZodIssue list + string" where
  "GetLatestMessageSchema_parse arguments =
     (case arguments of
        None \<Rightarrow> Inl [ZodIssue [] ''object'' ''undefined'']
      | Some obj \<Rightarrow> z_string ''channel'' (map_of obj ''channel''))"

subsection \<open>The \<open>call_tool\<close> handler of the Slack server\<close>

text \<open>
  The text of a response is \<open>JSON.stringify(result, null, 2)\<close>, kept as the value that
  is serialised, or the error text. A successful response has no \<open>isError\<close> field.
\<close>

datatype 'a SlackContent = JsonText 'a | ErrorText string

record 'a CallToolResult =
  slack_content :: "'a SlackContent"
  isError :: "bool option"

definition handleResult :: "('w, 'a) Effect \<Rightarrow> 'w Run \<Rightarrow> 'a CallToolResult \<times> 'w Run" where
  \<comment> \<open>\<open>Effect.runPromise(effect).then(onSuccess, onError)\<close>: a failure and a defect
      both reject the promise, with an error that has the message of the \<open>SlackError\<close>\<close>
  "handleResult effect run =
     (case effect run of
        (Success result, run') \<Rightarrow>
          (\<lparr>slack_content = JsonText result, isError = None\<rparr>, run')
      | (Failure e, run') \<Rightarrow>
          (\<lparr>slack_content = ErrorText (''Slack API error: '' @ message e),
            isError = Some True\<rparr>, run')
      | (Die e, run') \<Rightarrow>
          (\<lparr>slack_content = ErrorText (''Slack API error: '' @ message e),
            isError = Some True\<rparr>, run'))"

datatype ToolResult =
    SendMessageOutput SendMessageResult
  | ListChannelsOutput "ChannelInfo list"
  | ListUsersOutput "UserInfo list"
  | LatestMessageOutput Message

datatype SlackFault = ZodError "ZodIssue list" | SlackMcpError "string McpError"

definition returned ::
  "'r \<times> 'w Run \<Rightarrow> (SlackFault, 'r) Completion \<times> 'w Run" where
  "returned p = (Returned (fst p), snd p)"

definition slack_callTool ::
  "'w WebClient \<Rightarrow> string \<Rightarrow> SlackArguments \<Rightarrow> 'w Run
     \<Rightarrow> (SlackFault, ToolResult CallToolResult) Completion \<times> 'w Run" where
  "slack_callTool api name arguments run =
     (if name = ''send_message'' then
        (case SendMessageSchema_parse arguments of
           Inl is \<Rightarrow> (Thrown (ZodError is), run)
         | Inr args \<Rightarrow>
             returned (handleResult (effect_map SendMessageOutput (sendMessage api args)) run))
      else if name = ''list_channels'' then
        (case ListChannelsSchema_parse arguments of
           Inl is \<Rightarrow> (Thrown (ZodError is), run)
         | Inr limit \<Rightarrow>
             returned (handleResult (effect_map ListChannelsOutput (listChannels api limit)) run))
      else if name = ''list_users'' then
        (case ListUsersSchema_parse arguments of
           Inl is \<Rightarrow> (Thrown (ZodError is), run)
         | Inr limit \<Rightarrow>
             returned (handleResult (effect_map ListUsersOutput (listUsers api limit)) run))
      else if name = ''get_latest_message'' then
        (case GetLatestMessageSchema_parse arguments of
           Inl is \<Rightarrow> (Thrown (ZodError is), run)
         | Inr channelId \<Rightarrow>
             returned (handleResult
                        (effect_map LatestMessageOutput (getLatestMessage api channelId)) run))
      else (Thrown (SlackMcpError (McpError MethodNotFound (''Unknown tool: '' @ name))), run))"

text \<open>The tools that the \<open>list_tools\<close> handler of the Slack server announces, each with
  the fields its input schema declares as required.\<close>

definition slack_tools :: "(string \<times> string list) list" where
  "slack_tools =
     [(''send_message'', [''channel'', ''text'']),
      (''list_channels'', []),
      (''list_users'', []),
      (''get_latest_message'', [''channel''])]"

text \<open>The calls that ask for membership of a channel, counted in a list of calls.\<close>

fun is_join_or_invite :: "SlackCall \<Rightarrow> bool" where
  "is_join_or_invite (ConversationsInvite c u) = True"
| "is_join_or_invite (ConversationsJoin c) = True"
| "is_join_or_invite call = False"

definition join_calls :: "SlackCall list \<Rightarrow> nat" where
  "join_calls calls = length (filter is_join_or_invite calls)"

subsection \<open>Reading a run, and a small workspace to run the service on\<close>

text \<open>A call of the client fails when its promise rejects or its response has
  \<open>ok: false\<close>.\<close>

fun call_failed :: "('z SlackResponse_scheme) Promise \<Rightarrow> bool" where
  "call_failed (Rejected e) = True"
| "call_failed (Resolved response) = (\<not> ok response)"

text \<open>The \<open>SlackError\<close> that a failed call ends in: the \<open>catch\<close> arm of
  \<open>tryPromise\<close> with the prefix of the step for a rejection, the \<open>throw\<close> of
  \<open>handleSlackResponse\<close> for \<open>ok: false\<close>.\<close>

fun failure_message :: "string \<Rightarrow> ('z SlackResponse_scheme) Promise \<Rightarrow> string" where
  "failure_message prefix (Rejected e) = prefix @ e"
| "failure_message prefix (Resolved response) = error_or_unknown response"

fun failure_exit :: "string \<Rightarrow> ('z SlackResponse_scheme) Promise \<Rightarrow> (SlackError, 'a) Exit" where
  "failure_exit prefix (Rejected e) = Failure (SlackError (prefix @ e))"
| "failure_exit prefix (Resolved response) = Die (SlackError (error_or_unknown response))"

definition error_response :: "string \<Rightarrow> 'a CallToolResult" where
  "error_response m =
     \<lparr>slack_content = ErrorText (''Slack API error: '' @ m), isError = Some True\<rparr>"

text \<open>
  A workspace with one channel, \<open>C1\<close>, given by the list of its members; the bot is
  the user \<open>U1\<close>. The parameters say whether the channel is private, whether the
  members lookup returns a \<open>members\<close> field, and what a join or invite answers; a
  join or invite that succeeds adds the user. Posting needs the bot to be a member.
\<close>

definition ok_response :: SlackResponse where
  "ok_response = \<lparr>ok = True, error = None\<rparr>"

definition demo_client ::
  "bool \<Rightarrow> bool \<Rightarrow> SlackResponse Promise \<Rightarrow> (string list) WebClient" where
  "demo_client private listed join_answer =
     \<lparr>auth_test = (\<lambda>w. (Resolved \<lparr>ok = True, error = None, user_id = Some ''U1''\<rparr>, w)),
      conversations_info = (\<lambda>c w.
        if c = ''C1''
        then (Resolved \<lparr>ok = True, error = None,
                channel = Some \<lparr>channel_id = Some ''C1'', channel_name = Some ''general'',
                                 is_private = Some private,
                                 num_members = Some (length w)\<rparr>\<rparr>, w)
        else (Rejected ''Error: An API error occurred: channel_not_found'', w)),
      conversations_members = (\<lambda>c w.
        (Resolved \<lparr>ok = True, error = None,
           members = (if listed then Some w else None)\<rparr>, w)),
      conversations_invite = (\<lambda>c u w.
        (join_answer, if call_failed join_answer then w else w @ [u])),
      conversations_join = (\<lambda>c w.
        (join_answer, if call_failed join_answer then w else w @ [''U1''])),
      chat_postMessage = (\<lambda>c t w.
        if ''U1'' \<in> set w
        then (Resolved \<lparr>ok = True, error = None,
                post_ts = Some ''1700000000.000100'', post_channel = Some c\<rparr>, w)
        else (Rejected ''Error: An API error occurred: not_in_channel'', w)),
      conversations_history = (\<lambda>c n w.
        (Resolved \<lparr>ok = True, error = None, messages = Some []\<rparr>, w)),
      conversations_list = (\<lambda>limit w.
        (Resolved \<lparr>ok = True, error = None, channels = None\<rparr>, w)),
      users_list = (\<lambda>limit w.
        (Resolved \<lparr>ok = True, error = None, list_members = None\<rparr>, w)),
      elapse = (\<lambda>ms w. w)\<rparr>"

text \<open>
  The same workspace behind a client that answers \<open>ok: false\<close> with the error
  \<open>channel_not_found\<close>: to the channel lookup when the flag is set, and to every post.
\<close>

definition refusing_client :: "bool \<Rightarrow> (string list) WebClient" where
  "refusing_client at_info =
     (demo_client False True (Resolved ok_response))
       \<lparr>conversations_info := (\<lambda>c w.
          if at_info
          then (Resolved \<lparr>ok = False, error = Some ''channel_not_found'', channel = None\<rparr>, w)
          else conversations_info (demo_client False True (Resolved ok_response)) c w),
        chat_postMessage := (\<lambda>c t w.
          (Resolved \<lparr>ok = False, error = Some ''channel_not_found'',
             post_ts = None, post_channel = None\<rparr>, w))\<rparr>"

text \<open>The same workspace behind a client whose members lookup is rejected.\<close>

definition members_refusing_client :: "(string list) WebClient" where
  "members_refusing_client =
     (demo_client False True (Resolved ok_response))
       \<lparr>conversations_members := (\<lambda>c w.
          (Rejected ''Error: An API error occurred: fetch_members_failed'', w))\<rparr>"

text \<open>The values that \<open>z.string()\<close> accepts.\<close>

fun is_JString :: "jsvalue option \<Rightarrow> bool" where
  "is_JString (Some (JString s)) = True"
| "is_JString v = False"

section \<open>Facts about the memory store\<close>

lemma Map_has_iff: "Map_has key store \<longleftrightarrow> map_of store key \<noteq> None"
  by (simp add: Map_has_def map_of_eq_None_iff)

lemma Map_get_absent: "\<not> Map_has key store \<Longrightarrow> Map_get key store = None"
  by (simp add: Map_has_iff Map_get_def)

lemma Map_has_delete: "\<not> Map_has key (AList.delete key store)"
  by (simp add: Map_has_iff delete_conv')

lemma Map_get_update: "Map_get key (AList.update key val store) = val"
  by (simp add: Map_get_def update_conv')

lemma Map_invariant_set:
  "Map_invariant store \<Longrightarrow> Map_invariant (snd (MemoryStoreImpl_set key val store))"
  by (simp add: Map_invariant_def MemoryStoreImpl_set_def distinct_update)

lemma Map_invariant_delete:
  "Map_invariant store \<Longrightarrow> Map_invariant (snd (MemoryStoreImpl_delete key store))"
  by (simp add: Map_invariant_def MemoryStoreImpl_delete_def distinct_delete)

lemma Map_get_delete_other:
  "key' \<noteq> key \<Longrightarrow> Map_get key' (AList.delete key store) = Map_get key' store"
  by (simp add: Map_get_def)

lemma map_of_fromEntries_aux:
  "map_of (fold (\<lambda>(k, v) obj. AList.update (toPropertyKey k) v obj) entries acc) p =
     (case map_of (rev (map (\<lambda>(k, v). (toPropertyKey k, v)) entries)) p of
        None \<Rightarrow> map_of acc p
      | Some v \<Rightarrow> Some v)"
proof (induction entries arbitrary: acc)
  case Nil
  then show ?case by simp
next
  case (Cons e es)
  obtain k v where e: "e = (k, v)" by (cases e)
  show ?case
    by (simp add: e Cons.IH update_conv' map_add_def split: option.splits)
qed

lemma map_of_fromEntries:
  "map_of (fromEntries entries) p =
     map_of (rev (map (\<lambda>(k, v). (toPropertyKey k, v)) entries)) p"
  by (simp add: fromEntries_def map_of_fromEntries_aux split: option.splits)

lemma toPropertyKey_inj:
  "None \<notin> fst ` set store \<Longrightarrow> inj_on toPropertyKey (fst ` set store)"
  by (rule inj_onI) (metis option.exhaust toPropertyKey.simps(2))

text \<open>On a store whose keys are all strings, as the declared type of the map says, the
  object that \<open>list\<close> returns has exactly the entries of the store.\<close>

lemma fromEntries_typed:
  assumes "Map_invariant store" "None \<notin> fst ` set store"
  shows "map_of (fromEntries store) k = map_of store (Some k)"
proof -
  let ?f = "\<lambda>(k, v). (toPropertyKey k, v)"
  have inj: "inj_on toPropertyKey (fst ` set store)"
    using assms(2) by (rule toPropertyKey_inj)
  have fst: "map fst (map ?f store) = map toPropertyKey (map fst store)"
    by (induction store) auto
  have d: "distinct (map fst (map ?f store))"
    unfolding fst using assms(1) inj
    by (metis Map_invariant_def distinct_map list.set_map)
  have "map_of (rev (map ?f store)) k = map_of (map ?f store) k"
    using d by (metis distinct_rev map_of_inject_set rev_map set_rev)
  also have "\<dots> = map_of store (Some k)"
    using assms(2)
  proof (induction store)
    case Nil
    then show ?case by simp
  next
    case (Cons e es)
    obtain a b where e: "e = (a, b)" by (cases e)
    from Cons.prems e obtain s where a: "a = Some s" by (cases a) auto
    from Cons show ?case by (auto simp: e a)
  qed
  finally show ?thesis by (simp add: map_of_fromEntries)
qed

section \<open>Facts about channel access\<close>

text \<open>
  Three runs of \<open>ensureChannelAccess\<close>, each told by the answers of the client: the
  bot is among the members or no member list comes back; the channel lookup fails;
  the bot is not among the members and a join or invite is made.
\<close>

lemmas effect_defs =
  flatMap_def tryPromise_def handleSlackResponse_def succeed_def die_def sleep_def

lemma ensureChannelAccess_member:
  assumes "auth_test api w = (Resolved a, wa)" "ok a" "user_id a = Some b" "b \<noteq> []"
    and "conversations_info api c wa = (Resolved i, wi)" "ok i"
    and "conversations_members api c wi = (Resolved m, wm)" "ok m"
    and "members m = None \<or> (\<exists>ms. members m = Some ms \<and> b \<in> set ms)"
  shows "ensureChannelAccess api c (w, cs)
           = (Success (), (wm, cs @ [AuthTest, ConversationsInfo c, ConversationsMembers c]))"
  using assms by (auto simp: ensureChannelAccess_def effect_defs)

lemma ensureChannelAccess_info_fails:
  assumes "auth_test api w = (Resolved a, wa)" "ok a" "user_id a = Some b" "b \<noteq> []"
    and "conversations_info api c wa = (p, wi)" "call_failed p"
  shows "ensureChannelAccess api c (w, cs)
           = (failure_exit ''Channel info failed: '' p, (wi, cs @ [AuthTest, ConversationsInfo c]))"
  using assms by (cases p) (auto simp: ensureChannelAccess_def effect_defs)

lemma ensureChannelAccess_join:
  assumes "auth_test api w = (Resolved a, wa)" "ok a" "user_id a = Some b" "b \<noteq> []"
    and "conversations_info api c wa = (Resolved i, wi)" "ok i" "channel i = Some ch"
    and "conversations_members api c wi = (Resolved m, wm)" "ok m"
      "members m = Some ms" "b \<notin> set ms"
    and "(if is_private ch = Some True then conversations_invite api c b
          else conversations_join api c) wm = (p, wj)"
  shows "ensureChannelAccess api c (w, cs)
           = (if call_failed p
              then (failure_exit ''Join channel failed: '' p,
                    (wj, cs @ [AuthTest, ConversationsInfo c, ConversationsMembers c,
                               if is_private ch = Some True then ConversationsInvite c b
                               else ConversationsJoin c]))
              else (Success (),
                    (elapse api 2000 wj,
                     cs @ [AuthTest, ConversationsInfo c, ConversationsMembers c,
                           if is_private ch = Some True then ConversationsInvite c b
                           else ConversationsJoin c, Sleep 2000])))"
  using assms by (cases p) (auto simp: ensureChannelAccess_def effect_defs split: if_splits)

lemma sendMessage_access_succeeds:
  assumes "ensureChannelAccess api (arg_channel args) run = (Success (), (w, cs))"
  shows "snd (sendMessage api args run)
           = (snd (chat_postMessage api (arg_channel args) (arg_text args) w),
              cs @ [ChatPostMessage (arg_channel args) (arg_text args)])"
proof -
  obtain p w' where p: "chat_postMessage api (arg_channel args) (arg_text args) w = (p, w')"
    by (cases "chat_postMessage api (arg_channel args) (arg_text args) w")
  show ?thesis
    using assms p
    by (cases p)
      (auto simp: sendMessage_def effect_defs split: option.splits prod.splits Exit.splits)
qed

lemma getLatestMessage_access_succeeds:
  assumes "ensureChannelAccess api c run = (Success (), (w, cs))"
  shows "snd (snd (getLatestMessage api c run)) = cs @ [ConversationsHistory c 1]"
proof -
  obtain p w' where p: "conversations_history api c 1 w = (p, w')"
    by (cases "conversations_history api c 1 w")
  show ?thesis
    using assms p
    by (cases p)
      (auto simp: getLatestMessage_def effect_defs
        split: option.splits prod.splits Exit.splits list.splits)
qed

lemma sendMessage_access_fails:
  assumes "ensureChannelAccess api (arg_channel args) run = (failure_exit prefix p, run')"
    and "call_failed p"
  shows "handleResult (sendMessage api args) run
           = (error_response (failure_message prefix p), run')"
  using assms
  by (cases p) (auto simp: sendMessage_def handleResult_def flatMap_def error_response_def)

lemma getLatestMessage_access_fails:
  assumes "ensureChannelAccess api c run = (failure_exit prefix p, run')"
    and "call_failed p"
  shows "handleResult (getLatestMessage api c) run
           = (error_response (failure_message prefix p), run')"
  using assms
  by (cases p) (auto simp: getLatestMessage_def handleResult_def flatMap_def error_response_def)

lemma ensureChannelAccess_members_fails:
  assumes "auth_test api w = (Resolved a, wa)" "ok a" "user_id a = Some b" "b \<noteq> []"
    and "conversations_info api c wa = (Resolved i, wi)" "ok i"
    and "conversations_members api c wi = (q, wm)" "call_failed q"
  shows "ensureChannelAccess api c (w, cs)
           = (failure_exit ''Get members failed: '' q,
              (wm, cs @ [AuthTest, ConversationsInfo c, ConversationsMembers c]))"
  using assms by (cases q) (auto simp: ensureChannelAccess_def effect_defs)

lemma sendMessage_no_channel_information:
  assumes "auth_test api w = (Resolved a, wa)" "ok a" "user_id a = Some b" "b \<noteq> []"
    and "conversations_info api c wa = (Resolved i, wi)" "ok i" "channel i = None"
    and "conversations_members api c wi = (Resolved m, wm)" "ok m"
      "members m = Some ms" "b \<notin> set ms"
  shows "sendMessage api \<lparr>arg_channel = c, arg_text = t\<rparr> (w, cs)
           = (Die (SlackError ''Channel information not found''),
              (wm, cs @ [AuthTest, ConversationsInfo c, ConversationsMembers c]))"
  using assms by (simp add: sendMessage_def ensureChannelAccess_def effect_defs)

lemma z_string_accepts:
  "is_JString v \<Longrightarrow> \<exists>s. z_string field v = Inr s"
  by (cases "(field, v)" rule: z_string.cases) auto

lemma z_string_refuses:
  "\<not> is_JString v \<Longrightarrow> z_string field v = Inl [ZodIssue [field] ''string'' (typeName v)]"
  by (cases "(field, v)" rule: z_string.cases) auto

section \<open>Claims about the memory store\<close>

text \<open>
  C7. \<open>get\<close> on a key that is absent from the store fails, and so does \<open>delete\<close>;
  \<open>delete\<close> on a key that is present succeeds and removes that entry, leaving every
  other key as it was. The failure is the defect \<open>McpError\<close> with the code
  \<open>ErrorCode.InvalidRequest\<close> and the "key not found" message: that code, and not a
  kind named NotFound, is what the code of the store gives the failure.
\<close>

theorem absent_key_fails_InvalidRequest:
  "(\<not> Map_has key store \<longrightarrow>
      MemoryStoreImpl_get key store = (Die (McpError InvalidRequest (KeyNotFound key)), store)
    \<and> MemoryStoreImpl_delete key store
        = (Die (McpError InvalidRequest (KeyNotFound key)), store))
   \<and> (Map_has key store \<longrightarrow>
        (\<exists>store'. MemoryStoreImpl_delete key store = (Success (), store')
           \<and> \<not> Map_has key store'
           \<and> (\<forall>key'. key' \<noteq> key \<longrightarrow> Map_get key' store' = Map_get key' store)))"
  by (simp add: MemoryStoreImpl_get_def MemoryStoreImpl_delete_def Map_get_absent
      Map_has_delete Map_get_delete_other)

theorem absent_key_fails_InvalidRequest_witness:
  "\<not> Map_has (Some ''missing'') [(Some ''a'', Some ''1'')]
   \<and> MemoryStoreImpl_get (Some ''missing'') [(Some ''a'', Some ''1'')]
       = (Die (McpError InvalidRequest (KeyNotFound (Some ''missing''))), [(Some ''a'', Some ''1'')])
   \<and> Map_has (Some ''a'') [(Some ''a'', Some ''1'')]
   \<and> (\<exists>store'. MemoryStoreImpl_delete (Some ''a'') [(Some ''a'', Some ''1'')] = (Success (), store')
         \<and> \<not> Map_has (Some ''a'') store')"
  using absent_key_fails_InvalidRequest [of "Some ''missing''" "[(Some ''a'', Some ''1'')]"]
    absent_key_fails_InvalidRequest [of "Some ''a''" "[(Some ''a'', Some ''1'')]"]
  by (auto simp: Map_has_def)

text \<open>
  The sentence as the specification words it asks for the kind NotFound. On the fresh
  store, \<open>get\<close> of the key \<open>"missing"\<close> ends in a defect whose code is
  \<open>InvalidRequest\<close>.
\<close>

theorem get_missing_is_InvalidRequest:
  "MemoryStoreImpl_get (Some ''missing'') MemoryStoreImpl_new
     = (Die (McpError InvalidRequest (KeyNotFound (Some ''missing''))), [])"
  by (simp add: MemoryStoreImpl_get_def MemoryStoreImpl_new_def Map_get_def)

text \<open>
  C8. For all strings \<open>k\<close> and \<open>v\<close> and every store: \<open>set(k, v)\<close> followed by
  \<open>get(k)\<close> returns \<open>v\<close>; \<open>delete(k)\<close> followed by \<open>get(k)\<close> fails with the
  \<open>McpError\<close> of code \<open>InvalidRequest\<close> and the "key not found" message (whether or
  not the \<open>delete\<close> found the key); and on a store that holds one entry per key and
  only string keys, the object that \<open>list()\<close> returns after \<open>set(k, v)\<close> has the
  property \<open>k\<close> with the value \<open>v\<close>.
\<close>

theorem store_round_trip:
  "fst (MemoryStoreImpl_get (Some k) (snd (MemoryStoreImpl_set (Some k) (Some v) store)))
     = Success v
   \<and> fst (MemoryStoreImpl_get key (snd (MemoryStoreImpl_delete key store)))
       = Die (McpError InvalidRequest (KeyNotFound key))
   \<and> (Map_invariant store \<and> None \<notin> fst ` set store \<longrightarrow>
        (\<exists>r. fst (MemoryStoreImpl_list (snd (MemoryStoreImpl_set (Some k) (Some v) store)))
                = Success r
             \<and> map_of r k = Some (Some v)))"
proof (intro conjI impI)
  show "fst (MemoryStoreImpl_get (Some k) (snd (MemoryStoreImpl_set (Some k) (Some v) store)))
     = Success v"
    by (simp add: MemoryStoreImpl_get_def MemoryStoreImpl_set_def Map_get_update)
  show "fst (MemoryStoreImpl_get key (snd (MemoryStoreImpl_delete key store)))
       = Die (McpError InvalidRequest (KeyNotFound key))"
    by (simp add: MemoryStoreImpl_get_def MemoryStoreImpl_delete_def Map_get_absent
        Map_has_delete)
next
  assume a: "Map_invariant store \<and> None \<notin> fst ` set store"
  let ?s = "AList.update (Some k) (Some v) store"
  have inv: "Map_invariant ?s"
    using a Map_invariant_set [of store "Some k" "Some v"] by (simp add: MemoryStoreImpl_set_def)
  have keys: "None \<notin> fst ` set ?s"
    using a by (simp add: dom_update)
  have "map_of (fromEntries ?s) k = Some (Some v)"
    using fromEntries_typed [OF inv keys, of k] by (simp add: update_conv')
  then show "\<exists>r. fst (MemoryStoreImpl_list (snd (MemoryStoreImpl_set (Some k) (Some v) store)))
                = Success r \<and> map_of r k = Some (Some v)"
    by (simp add: MemoryStoreImpl_list_def MemoryStoreImpl_set_def)
qed

theorem store_round_trip_witness:
  "Map_invariant [(Some ''b'', Some ''2'')] \<and> None \<notin> fst ` set [(Some ''b'', Some ''2'')]
   \<and> (\<exists>r. fst (MemoryStoreImpl_list
                 (snd (MemoryStoreImpl_set (Some ''a'') (Some ''1'') [(Some ''b'', Some ''2'')])))
             = Success r \<and> map_of r ''a'' = Some (Some ''1''))"
  using store_round_trip [of "''a''" "''1''" "[(Some ''b'', Some ''2'')]"]
  by (simp add: Map_invariant_def)

text \<open>
  The sentence as the specification words it has \<open>get\<close> after \<open>delete\<close> yield NotFound.
  On the store that holds \<open>"a"\<close>, \<open>delete("a")\<close> followed by \<open>get("a")\<close> ends in the
  defect of code \<open>InvalidRequest\<close>. And the listing needs string keys: after
  \<open>set_value\<close> of the key \<open>"undefined"\<close>, a \<open>set_value\<close> call without a key and a
  second \<open>set_value\<close> of \<open>"undefined"\<close> to \<open>"v"\<close>, the listing shows \<open>"x"\<close>, the value
  stored under the key \<open>undefined\<close>.
\<close>

theorem delete_then_get_is_InvalidRequest:
  "fst (MemoryStoreImpl_get (Some ''a'')
         (snd (MemoryStoreImpl_delete (Some ''a'') [(Some ''a'', Some ''1'')])))
     = Die (McpError InvalidRequest (KeyNotFound (Some ''a'')))
   \<and> fst (memory_callTool ''list_values'' None
           (snd (memory_callTool ''set_value''
                   (Some [(''key'', ''undefined''), (''value'', ''v'')])
              (snd (memory_callTool ''set_value'' (Some [(''value'', ''x'')])
                 (snd (memory_callTool ''set_value''
                         (Some [(''key'', ''undefined''), (''value'', ''a'')])
                         MemoryStoreImpl_new)))))))
       = Returned \<lparr>content = Stringified (RecordResult [(''undefined'', Some ''x'')])\<rparr>"
  by (simp add: MemoryStoreImpl_get_def MemoryStoreImpl_delete_def Map_get_def Map_has_def
      AList.delete_eq memory_callTool_def MemoryStoreImpl_set_def MemoryStoreImpl_new_def
      MemoryStoreImpl_list_def handleEffect_def fromEntries_def Let_def)

section \<open>Claims about channel access\<close>

text \<open>
  C1. A send to a channel whose member list, as the members lookup returns it, does not
  hold the bot makes its calls in this order: identity check (\<open>auth.test\<close>), channel
  inspection (\<open>conversations.info\<close>, \<open>conversations.members\<close>), the invite or join
  (made when the channel information is there; without it the run ends after the
  inspection), and then, when that call succeeded, the settle wait of 2000 ms followed by
  the send (\<open>chat.postMessage\<close>), which is made on the workspace as the wait left it. So
  after a successful join or invite the wait always runs, and the send comes after it;
  when the join or invite fails there is neither wait nor send.
\<close>

theorem send_to_unjoined_channel_order:
  assumes "auth_test api w = (Resolved a, wa)" "ok a" "user_id a = Some b" "b \<noteq> []"
    and "conversations_info api c wa = (Resolved i, wi)" "ok i"
    and "conversations_members api c wi = (Resolved m, wm)" "ok m"
      "members m = Some ms" "b \<notin> set ms"
  shows "snd (sendMessage api \<lparr>arg_channel = c, arg_text = t\<rparr> (w, cs))
           = (case channel i of
                None \<Rightarrow> (wm, cs @ [AuthTest, ConversationsInfo c, ConversationsMembers c])
              | Some ch \<Rightarrow>
                  (case (if is_private ch = Some True then conversations_invite api c b
                         else conversations_join api c) wm of
                     (p, wj) \<Rightarrow>
                       (if call_failed p then wj
                        else snd (chat_postMessage api c t (elapse api 2000 wj)),
                        cs @ [AuthTest, ConversationsInfo c, ConversationsMembers c,
                              if is_private ch = Some True then ConversationsInvite c b
                              else ConversationsJoin c]
                           @ (if call_failed p then []
                              else [Sleep 2000, ChatPostMessage c t]))))"
proof (cases "channel i")
  case None
  then show ?thesis
    using sendMessage_no_channel_information [OF assms(1-6) None assms(7-10), of t cs]
    by simp
next
  case (Some ch)
  obtain p wj where j: "(if is_private ch = Some True then conversations_invite api c b
                         else conversations_join api c) wm = (p, wj)"
    by (cases "(if is_private ch = Some True then conversations_invite api c b
                else conversations_join api c) wm")
  note access = ensureChannelAccess_join [OF assms(1-6) Some assms(7-10) j, of cs]
  show ?thesis
  proof (cases "call_failed p")
    case True
    have "handleResult (sendMessage api \<lparr>arg_channel = c, arg_text = t\<rparr>) (w, cs)
            = (error_response (failure_message ''Join channel failed: '' p),
               (wj, cs @ [AuthTest, ConversationsInfo c, ConversationsMembers c,
                          if is_private ch = Some True then ConversationsInvite c b
                          else ConversationsJoin c]))"
      using access True by (intro sendMessage_access_fails) simp_all
    then have "snd (sendMessage api \<lparr>arg_channel = c, arg_text = t\<rparr> (w, cs))
                 = (wj, cs @ [AuthTest, ConversationsInfo c, ConversationsMembers c,
                              if is_private ch = Some True then ConversationsInvite c b
                              else ConversationsJoin c])"
      by (auto simp: handleResult_def split: prod.splits Exit.splits)
    then show ?thesis
      using True Some j by simp
  next
    case False
    have "snd (sendMessage api \<lparr>arg_channel = c, arg_text = t\<rparr> (w, cs))
            = (snd (chat_postMessage api c t (elapse api 2000 wj)),
               (cs @ [AuthTest, ConversationsInfo c, ConversationsMembers c,
                      if is_private ch = Some True then ConversationsInvite c b
                      else ConversationsJoin c, Sleep 2000]) @ [ChatPostMessage c t])"
      using access False
        sendMessage_access_succeeds [of api "\<lparr>arg_channel = c, arg_text = t\<rparr>" "(w, cs)"]
      by simp
    then show ?thesis
      using False Some j by simp
  qed
qed

theorem send_to_unjoined_channel_order_witness:
  "snd (sendMessage (demo_client False True (Resolved ok_response))
          \<lparr>arg_channel = ''C1'', arg_text = ''hello''\<rparr> ([], []))
     = ([''U1''],
        [AuthTest, ConversationsInfo ''C1'', ConversationsMembers ''C1'',
         ConversationsJoin ''C1'', Sleep 2000, ChatPostMessage ''C1'' ''hello''])
   \<and> snd (sendMessage (demo_client True True (Resolved ok_response))
            \<lparr>arg_channel = ''C1'', arg_text = ''hello''\<rparr> ([''U2''], []))
       = ([''U2'', ''U1''],
          [AuthTest, ConversationsInfo ''C1'', ConversationsMembers ''C1'',
           ConversationsInvite ''C1'' ''U1'', Sleep 2000, ChatPostMessage ''C1'' ''hello''])"
proof -
  let ?pub = "demo_client False True (Resolved ok_response)"
  let ?priv = "demo_client True True (Resolved ok_response)"
  let ?a = "\<lparr>ok = True, error = None, user_id = Some ''U1''\<rparr>"
  note pub = send_to_unjoined_channel_order
          [where api = ?pub and w = "[]" and c = "''C1''" and cs = "[]" and t = "''hello''"
             and a = ?a and wa = "[]" and b = "''U1''"
             and i = "\<lparr>ok = True, error = None,
                       channel = Some \<lparr>channel_id = Some ''C1'', channel_name = Some ''general'',
                                        is_private = Some False, num_members = Some 0\<rparr>\<rparr>"
             and wi = "[]" and m = "\<lparr>ok = True, error = None, members = Some []\<rparr>"
             and wm = "[]" and ms = "[]"]
  note priv = send_to_unjoined_channel_order
          [where api = ?priv and w = "[''U2'']" and c = "''C1''" and cs = "[]" and t = "''hello''"
             and a = ?a and wa = "[''U2'']" and b = "''U1''"
             and i = "\<lparr>ok = True, error = None,
                       channel = Some \<lparr>channel_id = Some ''C1'', channel_name = Some ''general'',
                                        is_private = Some True, num_members = Some 1\<rparr>\<rparr>"
             and wi = "[''U2'']" and m = "\<lparr>ok = True, error = None, members = Some [''U2'']\<rparr>"
             and wm = "[''U2'']" and ms = "[''U2'']"]
  have 1: "snd (sendMessage ?pub \<lparr>arg_channel = ''C1'', arg_text = ''hello''\<rparr> ([], []))
     = ([''U1''],
        [AuthTest, ConversationsInfo ''C1'', ConversationsMembers ''C1'',
         ConversationsJoin ''C1'', Sleep 2000, ChatPostMessage ''C1'' ''hello''])"
    using pub by (simp add: demo_client_def ok_response_def)
  have 2: "snd (sendMessage ?priv \<lparr>arg_channel = ''C1'', arg_text = ''hello''\<rparr> ([''U2''], []))
       = ([''U2'', ''U1''],
          [AuthTest, ConversationsInfo ''C1'', ConversationsMembers ''C1'',
           ConversationsInvite ''C1'' ''U1'', Sleep 2000, ChatPostMessage ''C1'' ''hello''])"
    using priv by (simp add: demo_client_def ok_response_def)
  from 1 2 show ?thesis by simp
qed

text \<open>
  The sentence as the specification words it speaks of every send to a channel that the
  bot is not yet a member of. In a workspace whose channel has no members at all, behind
  a client whose members lookup returns no \<open>members\<close> field, the send makes no join and
  no settle wait: the post follows the inspection at once (and is refused).
\<close>

theorem send_without_members_field_skips_join:
  "sendMessage (demo_client False False (Resolved ok_response))
     \<lparr>arg_channel = ''C1'', arg_text = ''hello''\<rparr> ([], [])
     = (Failure (SlackError ''Send message failed: Error: An API error occurred: not_in_channel''),
        ([], [AuthTest, ConversationsInfo ''C1'', ConversationsMembers ''C1'',
              ChatPostMessage ''C1'' ''hello'']))"
  by (simp add: sendMessage_def ensureChannelAccess_def effect_defs demo_client_def)

text \<open>
  C3. When the member list of the channel holds the bot's id, \<open>ensureChannelAccess\<close>
  succeeds after its three lookups, and a send or a read of the latest message makes
  no join and no invite call: the number of such calls in the list of calls is what it
  was before the operation. The run may start from any workspace and any list of
  earlier calls, so this holds in particular for the second of two operations in
  sequence.
\<close>

theorem member_performs_no_join:
  assumes "auth_test api w = (Resolved a, wa)" "ok a" "user_id a = Some b" "b \<noteq> []"
    and "conversations_info api c wa = (Resolved i, wi)" "ok i"
    and "conversations_members api c wi = (Resolved m, wm)" "ok m"
      "members m = Some ms" "b \<in> set ms"
  shows "ensureChannelAccess api c (w, cs)
           = (Success (), (wm, cs @ [AuthTest, ConversationsInfo c, ConversationsMembers c]))
       \<and> join_calls (snd (snd (sendMessage api \<lparr>arg_channel = c, arg_text = t\<rparr> (w, cs))))
           = join_calls cs
       \<and> join_calls (snd (snd (getLatestMessage api c (w, cs)))) = join_calls cs"
proof -
  have e: "ensureChannelAccess api c (w, cs)
             = (Success (), (wm, cs @ [AuthTest, ConversationsInfo c, ConversationsMembers c]))"
    using assms by (intro ensureChannelAccess_member) auto
  have "snd (snd (sendMessage api \<lparr>arg_channel = c, arg_text = t\<rparr> (w, cs)))
          = (cs @ [AuthTest, ConversationsInfo c, ConversationsMembers c]) @ [ChatPostMessage c t]"
    using sendMessage_access_succeeds [of api "\<lparr>arg_channel = c, arg_text = t\<rparr>" "(w, cs)"] e
    by simp
  moreover
  have "snd (snd (getLatestMessage api c (w, cs)))
          = (cs @ [AuthTest, ConversationsInfo c, ConversationsMembers c])
              @ [ConversationsHistory c 1]"
    using getLatestMessage_access_succeeds [of api c "(w, cs)"] e by simp
  ultimately show ?thesis
    using e by (simp add: join_calls_def)
qed

theorem member_performs_no_join_witness:
  "snd (sendMessage (demo_client False True (Resolved ok_response))
          \<lparr>arg_channel = ''C1'', arg_text = ''one''\<rparr> ([], []))
     = ([''U1''], [AuthTest, ConversationsInfo ''C1'', ConversationsMembers ''C1'',
                   ConversationsJoin ''C1'', Sleep 2000, ChatPostMessage ''C1'' ''one''])
   \<and> join_calls (snd (snd (sendMessage (demo_client False True (Resolved ok_response))
          \<lparr>arg_channel = ''C1'', arg_text = ''two''\<rparr>
          ([''U1''], [AuthTest, ConversationsInfo ''C1'', ConversationsMembers ''C1'',
                      ConversationsJoin ''C1'', Sleep 2000, ChatPostMessage ''C1'' ''one'']))))
       = 1"
proof -
  let ?api = "demo_client False True (Resolved ok_response)"
  let ?cs = "[AuthTest, ConversationsInfo ''C1'', ConversationsMembers ''C1'',
              ConversationsJoin ''C1'', Sleep 2000, ChatPostMessage ''C1'' ''one'']"
  have first: "snd (sendMessage ?api \<lparr>arg_channel = ''C1'', arg_text = ''one''\<rparr> ([], []))
                 = ([''U1''], ?cs)"
    by (simp add: sendMessage_def ensureChannelAccess_def effect_defs demo_client_def
        ok_response_def)
  have "ensureChannelAccess ?api ''C1'' ([''U1''], ?cs)
           = (Success (), ([''U1''],
                ?cs @ [AuthTest, ConversationsInfo ''C1'', ConversationsMembers ''C1'']))
       \<and> join_calls (snd (snd (sendMessage ?api \<lparr>arg_channel = ''C1'', arg_text = ''two''\<rparr>
                                   ([''U1''], ?cs))))
           = join_calls ?cs
       \<and> join_calls (snd (snd (getLatestMessage ?api ''C1'' ([''U1''], ?cs)))) = join_calls ?cs"
    by (rule member_performs_no_join
          [where a = "\<lparr>ok = True, error = None, user_id = Some ''U1''\<rparr>" and wa = "[''U1'']"
             and i = "\<lparr>ok = True, error = None,
                       channel = Some \<lparr>channel_id = Some ''C1'', channel_name = Some ''general'',
                                        is_private = Some False, num_members = Some 1\<rparr>\<rparr>"
             and wi = "[''U1'']" and m = "\<lparr>ok = True, error = None, members = Some [''U1'']\<rparr>"
             and ms = "[''U1'']" and b = "''U1''"])
      (simp_all add: demo_client_def)
  then show ?thesis
    using first by (simp add: join_calls_def)
qed

text \<open>
  C10. When the members lookup succeeds and its response has no \<open>members\<close> field,
  \<open>ensureChannelAccess\<close> makes no join or invite and no settle wait and returns
  success, whatever the workspace says about the bot's membership.
\<close>

theorem no_members_field_means_no_join:
  assumes "auth_test api w = (Resolved a, wa)" "ok a" "user_id a = Some b" "b \<noteq> []"
    and "conversations_info api c wa = (Resolved i, wi)" "ok i"
    and "conversations_members api c wi = (Resolved m, wm)" "ok m" "members m = None"
  shows "ensureChannelAccess api c (w, cs)
           = (Success (), (wm, cs @ [AuthTest, ConversationsInfo c, ConversationsMembers c]))"
  using assms by (intro ensureChannelAccess_member) auto

theorem no_members_field_means_no_join_witness:
  "ensureChannelAccess (demo_client False False (Resolved ok_response)) ''C1'' ([], [])
     = (Success (), ([], [AuthTest, ConversationsInfo ''C1'', ConversationsMembers ''C1'']))
   \<and> ''U1'' \<notin> set ([] :: string list)"
proof -
  have "ensureChannelAccess (demo_client False False (Resolved ok_response)) ''C1'' ([], [])
     = (Success (), ([], [] @ [AuthTest, ConversationsInfo ''C1'', ConversationsMembers ''C1'']))"
    by (rule no_members_field_means_no_join
          [where a = "\<lparr>ok = True, error = None, user_id = Some ''U1''\<rparr>" and wa = "[]"
             and i = "\<lparr>ok = True, error = None,
                       channel = Some \<lparr>channel_id = Some ''C1'', channel_name = Some ''general'',
                                        is_private = Some False, num_members = Some 0\<rparr>\<rparr>"
             and wi = "[]" and m = "\<lparr>ok = True, error = None, members = None\<rparr>"
             and b = "''U1''"])
      (simp_all add: demo_client_def)
  then show ?thesis by simp
qed

text \<open>
  C2. When the inspection of the channel fails, be it the channel lookup
  (\<open>conversations.info\<close>) or the members lookup (\<open>conversations.members\<close>) whose promise
  rejects or which answers \<open>ok: false\<close>, a send and a read of the latest message stop
  there: the list of calls ends with the failed lookup, so the guarded
  \<open>chat.postMessage\<close> or \<open>conversations.history\<close> is never made. The response is the
  error response of the handler: \<open>isError: true\<close> and the text \<open>Slack API error: \<close>
  followed by the message of the \<open>SlackError\<close>. The server has the one error class
  \<open>SlackError\<close> and its responses have no field for a kind of failure.
\<close>

theorem inspection_failure_contained:
  assumes "auth_test api w = (Resolved a, wa)" "ok a" "user_id a = Some b" "b \<noteq> []"
    and "conversations_info api c wa = (p, wi)"
    and "conversations_members api c wi = (q, wm)"
    and "call_failed p \<or> call_failed q"
  shows "handleResult (sendMessage api \<lparr>arg_channel = c, arg_text = t\<rparr>) (w, cs)
           = (if call_failed p
              then (error_response (failure_message ''Channel info failed: '' p),
                    (wi, cs @ [AuthTest, ConversationsInfo c]))
              else (error_response (failure_message ''Get members failed: '' q),
                    (wm, cs @ [AuthTest, ConversationsInfo c, ConversationsMembers c])))
       \<and> handleResult (getLatestMessage api c) (w, cs)
           = (if call_failed p
              then (error_response (failure_message ''Channel info failed: '' p),
                    (wi, cs @ [AuthTest, ConversationsInfo c]))
              else (error_response (failure_message ''Get members failed: '' q),
                    (wm, cs @ [AuthTest, ConversationsInfo c, ConversationsMembers c])))"
proof (cases "call_failed p")
  case True
  have e: "ensureChannelAccess api c (w, cs)
             = (failure_exit ''Channel info failed: '' p, (wi, cs @ [AuthTest, ConversationsInfo c]))"
    using assms(1-5) True by (rule ensureChannelAccess_info_fails)
  show ?thesis
    using sendMessage_access_fails [of api "\<lparr>arg_channel = c, arg_text = t\<rparr>" "(w, cs)"
        "''Channel info failed: ''" p] getLatestMessage_access_fails [OF e] e True
    by simp
next
  case False
  then obtain i where i: "p = Resolved i" "ok i"
    by (cases p) auto
  from False assms(7) have q: "call_failed q" by simp
  have e: "ensureChannelAccess api c (w, cs)
             = (failure_exit ''Get members failed: '' q,
                (wm, cs @ [AuthTest, ConversationsInfo c, ConversationsMembers c]))"
    using assms(1-4) assms(5) [unfolded i(1)] i(2) assms(6) q
    by (rule ensureChannelAccess_members_fails)
  show ?thesis
    using sendMessage_access_fails [of api "\<lparr>arg_channel = c, arg_text = t\<rparr>" "(w, cs)"
        "''Get members failed: ''" q] getLatestMessage_access_fails [OF e] e q False
    by simp
qed

theorem inspection_failure_contained_witness:
  "handleResult (sendMessage (demo_client False True (Resolved ok_response))
                   \<lparr>arg_channel = ''C404'', arg_text = ''hello''\<rparr>) ([''U1''], [])
     = (error_response ''Channel info failed: Error: An API error occurred: channel_not_found'',
        ([''U1''], [AuthTest, ConversationsInfo ''C404'']))
   \<and> handleResult (getLatestMessage members_refusing_client ''C1'') ([''U1''], [])
       = (error_response ''Get members failed: Error: An API error occurred: fetch_members_failed'',
          ([''U1''], [AuthTest, ConversationsInfo ''C1'', ConversationsMembers ''C1'']))"
proof -
  let ?api = "demo_client False True (Resolved ok_response)"
  let ?a = "\<lparr>ok = True, error = None, user_id = Some ''U1''\<rparr>"
  let ?p = "Rejected ''Error: An API error occurred: channel_not_found''
              :: ConversationsInfoResponse Promise"
  let ?q = "Rejected ''Error: An API error occurred: fetch_members_failed''
              :: ConversationsMembersResponse Promise"
  note info = inspection_failure_contained
          [where api = ?api and w = "[''U1'']" and c = "''C404''" and cs = "[]"
             and t = "''hello''" and a = ?a and wa = "[''U1'']" and b = "''U1''"
             and p = ?p and wi = "[''U1'']"
             and q = "Resolved \<lparr>ok = True, error = None, members = Some [''U1'']\<rparr>"
             and wm = "[''U1'']"]
  note mem = inspection_failure_contained
          [where api = members_refusing_client and w = "[''U1'']" and c = "''C1''" and cs = "[]"
             and t = "''hello''" and a = ?a and wa = "[''U1'']" and b = "''U1''"
             and p = "Resolved \<lparr>ok = True, error = None,
                       channel = Some \<lparr>channel_id = Some ''C1'', channel_name = Some ''general'',
                                        is_private = Some False, num_members = Some 1\<rparr>\<rparr>"
             and wi = "[''U1'']" and q = ?q and wm = "[''U1'']"]
  have 1: "handleResult (sendMessage ?api \<lparr>arg_channel = ''C404'', arg_text = ''hello''\<rparr>)
             ([''U1''], [])
     = (error_response ''Channel info failed: Error: An API error occurred: channel_not_found'',
        ([''U1''], [AuthTest, ConversationsInfo ''C404'']))"
    using info by (simp add: demo_client_def)
  have 2: "handleResult (getLatestMessage members_refusing_client ''C1'') ([''U1''], [])
       = (error_response ''Get members failed: Error: An API error occurred: fetch_members_failed'',
          ([''U1''], [AuthTest, ConversationsInfo ''C1'', ConversationsMembers ''C1'']))"
    using mem by (simp add: members_refusing_client_def demo_client_def)
  from 1 2 show ?thesis by simp
qed

text \<open>
  The sentence as the specification words it has the response carry the kind
  AccessError. A send whose channel lookup answers \<open>channel_not_found\<close> and a send that
  passes the access check and whose post then answers \<open>channel_not_found\<close> get the very
  same response: nothing in it tells a failure of access from a failure of the send. A
  channel lookup that is rejected gets a response of the same shape, the error flag and
  a text.
\<close>

theorem inspection_failure_response_has_no_kind:
  "handleResult (sendMessage (refusing_client True)
                   \<lparr>arg_channel = ''C1'', arg_text = ''hello''\<rparr>) ([''U1''], [])
     = (\<lparr>slack_content = ErrorText ''Slack API error: channel_not_found'',
          isError = Some True\<rparr>,
        ([''U1''], [AuthTest, ConversationsInfo ''C1'']))
   \<and> handleResult (sendMessage (refusing_client False)
                   \<lparr>arg_channel = ''C1'', arg_text = ''hello''\<rparr>) ([''U1''], [])
     = (\<lparr>slack_content = ErrorText ''Slack API error: channel_not_found'',
          isError = Some True\<rparr>,
        ([''U1''], [AuthTest, ConversationsInfo ''C1'', ConversationsMembers ''C1'',
                    ChatPostMessage ''C1'' ''hello'']))
   \<and> handleResult (sendMessage (demo_client False True (Resolved ok_response))
                   \<lparr>arg_channel = ''C404'', arg_text = ''hello''\<rparr>) ([''U1''], [])
     = (\<lparr>slack_content =
            ErrorText ''Slack API error: Channel info failed: Error: An API error occurred: channel_not_found'',
          isError = Some True\<rparr>,
        ([''U1''], [AuthTest, ConversationsInfo ''C404'']))"
  by (simp add: handleResult_def sendMessage_def ensureChannelAccess_def effect_defs
      demo_client_def refusing_client_def error_or_unknown_def ok_response_def)

text \<open>
  C4. When the member list does not hold the bot and the channel information is there,
  \<open>ensureChannelAccess\<close> asks for an invite (\<open>conversations.invite\<close> of the bot) when
  \<open>is_private\<close> is true and for a join (\<open>conversations.join\<close>) otherwise. When that
  call fails (its promise rejects, or it answers \<open>ok: false\<close>), the access check ends in
  a \<open>SlackError\<close> with no settle wait, the guarded operation is not made, and the
  response is the error response \<open>Slack API error: \<close> followed by the message; when it
  succeeds, the settle wait follows and the access check succeeds.
\<close>

theorem join_or_invite_by_privacy:
  assumes "auth_test api w = (Resolved a, wa)" "ok a" "user_id a = Some b" "b \<noteq> []"
    and "conversations_info api c wa = (Resolved i, wi)" "ok i" "channel i = Some ch"
    and "conversations_members api c wi = (Resolved m, wm)" "ok m"
      "members m = Some ms" "b \<notin> set ms"
    and "(if is_private ch = Some True then conversations_invite api c b
          else conversations_join api c) wm = (p, wj)"
  shows "ensureChannelAccess api c (w, cs)
           = (if call_failed p
              then (failure_exit ''Join channel failed: '' p,
                    (wj, cs @ [AuthTest, ConversationsInfo c, ConversationsMembers c,
                               if is_private ch = Some True then ConversationsInvite c b
                               else ConversationsJoin c]))
              else (Success (),
                    (elapse api 2000 wj,
                     cs @ [AuthTest, ConversationsInfo c, ConversationsMembers c,
                           if is_private ch = Some True then ConversationsInvite c b
                           else ConversationsJoin c, Sleep 2000])))
       \<and> (call_failed p \<longrightarrow>
            handleResult (sendMessage api \<lparr>arg_channel = c, arg_text = t\<rparr>) (w, cs)
              = (error_response (failure_message ''Join channel failed: '' p),
                 (wj, cs @ [AuthTest, ConversationsInfo c, ConversationsMembers c,
                            if is_private ch = Some True then ConversationsInvite c b
                            else ConversationsJoin c]))
          \<and> handleResult (getLatestMessage api c) (w, cs)
              = (error_response (failure_message ''Join channel failed: '' p),
                 (wj, cs @ [AuthTest, ConversationsInfo c, ConversationsMembers c,
                            if is_private ch = Some True then ConversationsInvite c b
                            else ConversationsJoin c])))"
proof (intro conjI impI)
  show e: "ensureChannelAccess api c (w, cs)
           = (if call_failed p
              then (failure_exit ''Join channel failed: '' p,
                    (wj, cs @ [AuthTest, ConversationsInfo c, ConversationsMembers c,
                               if is_private ch = Some True then ConversationsInvite c b
                               else ConversationsJoin c]))
              else (Success (),
                    (elapse api 2000 wj,
                     cs @ [AuthTest, ConversationsInfo c, ConversationsMembers c,
                           if is_private ch = Some True then ConversationsInvite c b
                           else ConversationsJoin c, Sleep 2000])))"
    using assms by (rule ensureChannelAccess_join)
  assume f: "call_failed p"
  show "handleResult (sendMessage api \<lparr>arg_channel = c, arg_text = t\<rparr>) (w, cs)
              = (error_response (failure_message ''Join channel failed: '' p),
                 (wj, cs @ [AuthTest, ConversationsInfo c, ConversationsMembers c,
                            if is_private ch = Some True then ConversationsInvite c b
                            else ConversationsJoin c]))"
    using e f by (intro sendMessage_access_fails) simp_all
  show "handleResult (getLatestMessage api c) (w, cs)
              = (error_response (failure_message ''Join channel failed: '' p),
                 (wj, cs @ [AuthTest, ConversationsInfo c, ConversationsMembers c,
                            if is_private ch = Some True then ConversationsInvite c b
                            else ConversationsJoin c]))"
    using e f by (intro getLatestMessage_access_fails) simp_all
qed

theorem join_or_invite_by_privacy_witness:
  "ensureChannelAccess (demo_client False True (Resolved ok_response)) ''C1'' ([], [])
     = (Success (), ([''U1''], [AuthTest, ConversationsInfo ''C1'', ConversationsMembers ''C1'',
                                ConversationsJoin ''C1'', Sleep 2000]))
   \<and> handleResult (sendMessage (demo_client True True (Rejected ''Error: An API error occurred: cant_invite_self''))
                     \<lparr>arg_channel = ''C1'', arg_text = ''hello''\<rparr>) ([], [])
       = (error_response ''Join channel failed: Error: An API error occurred: cant_invite_self'',
          ([], [AuthTest, ConversationsInfo ''C1'', ConversationsMembers ''C1'',
                ConversationsInvite ''C1'' ''U1'']))"
proof -
  let ?pub = "demo_client False True (Resolved ok_response)"
  let ?rej = "Rejected ''Error: An API error occurred: cant_invite_self'' :: SlackResponse Promise"
  let ?priv = "demo_client True True ?rej"
  let ?a = "\<lparr>ok = True, error = None, user_id = Some ''U1''\<rparr>"
  let ?m = "\<lparr>ok = True, error = None, members = Some []\<rparr>"
  note pub = join_or_invite_by_privacy
          [where api = ?pub and w = "[]" and c = "''C1''" and cs = "[]" and t = "''hello''"
             and a = ?a and wa = "[]" and b = "''U1''"
             and i = "\<lparr>ok = True, error = None,
                       channel = Some \<lparr>channel_id = Some ''C1'', channel_name = Some ''general'',
                                        is_private = Some False, num_members = Some 0\<rparr>\<rparr>"
             and ch = "\<lparr>channel_id = Some ''C1'', channel_name = Some ''general'',
                         is_private = Some False, num_members = Some 0\<rparr>"
             and wi = "[]" and m = ?m and wm = "[]" and ms = "[]"
             and p = "Resolved ok_response" and wj = "[''U1'']"]
  note priv = join_or_invite_by_privacy
          [where api = ?priv and w = "[]" and c = "''C1''" and cs = "[]" and t = "''hello''"
             and a = ?a and wa = "[]" and b = "''U1''"
             and i = "\<lparr>ok = True, error = None,
                       channel = Some \<lparr>channel_id = Some ''C1'', channel_name = Some ''general'',
                                        is_private = Some True, num_members = Some 0\<rparr>\<rparr>"
             and ch = "\<lparr>channel_id = Some ''C1'', channel_name = Some ''general'',
                         is_private = Some True, num_members = Some 0\<rparr>"
             and wi = "[]" and m = ?m and wm = "[]" and ms = "[]"
             and p = ?rej and wj = "[]"]
  have 1: "ensureChannelAccess ?pub ''C1'' ([], [])
     = (Success (), ([''U1''], [AuthTest, ConversationsInfo ''C1'', ConversationsMembers ''C1'',
                                ConversationsJoin ''C1'', Sleep 2000]))"
    using pub by (simp add: demo_client_def ok_response_def)
  have 2: "handleResult (sendMessage ?priv \<lparr>arg_channel = ''C1'', arg_text = ''hello''\<rparr>) ([], [])
       = (error_response ''Join channel failed: Error: An API error occurred: cant_invite_self'',
          ([], [AuthTest, ConversationsInfo ''C1'', ConversationsMembers ''C1'',
                ConversationsInvite ''C1'' ''U1'']))"
    using priv by (simp add: demo_client_def)
  from 1 2 show ?thesis by simp
qed

text \<open>
  The sentence as the specification words it has the failed join yield the kind
  AccessError. An invite that answers \<open>cant_invite_self\<close> gives a response with the
  error flag and the text alone.
\<close>

theorem failed_join_response_has_no_kind:
  "handleResult (sendMessage (demo_client True True
                    (Resolved \<lparr>ok = False, error = Some ''cant_invite_self''\<rparr>))
                   \<lparr>arg_channel = ''C1'', arg_text = ''hello''\<rparr>) ([], [])
     = (\<lparr>slack_content = ErrorText ''Slack API error: cant_invite_self'',
          isError = Some True\<rparr>,
        ([], [AuthTest, ConversationsInfo ''C1'', ConversationsMembers ''C1'',
              ConversationsInvite ''C1'' ''U1'']))"
  by (simp add: handleResult_def sendMessage_def ensureChannelAccess_def effect_defs
      demo_client_def error_or_unknown_def)

section \<open>Claims about both handlers\<close>



text \<open>
  C5. In the Slack server no fault of an operation leaves the handler: when the effect
  of an operation ends in a typed failure or in a defect, \<open>handleResult\<close> returns the
  error response with \<open>isError: true\<close> and the text \<open>Slack API error: \<close> followed by the
  message of the fault (there is no kind in it); and the handler throws only for
  arguments that fail validation and for an unknown tool, before any call is made.
\<close>

theorem slack_faults_caught_by_handleResult:
  "(fst (effect run) = Failure e \<or> fst (effect run) = Die e \<longrightarrow>
      handleResult effect run = (error_response (message e), snd (effect run)))
   \<and> (slack_callTool api name arguments run0 = (Thrown f, run1) \<longrightarrow>
        run1 = run0
        \<and> ((\<exists>is. f = ZodError is)
            \<or> f = SlackMcpError (McpError MethodNotFound (''Unknown tool: '' @ name))))"
proof (intro conjI impI)
  assume "fst (effect run) = Failure e \<or> fst (effect run) = Die e"
  then show "handleResult effect run = (error_response (message e), snd (effect run))"
    by (auto simp: handleResult_def error_response_def split: prod.splits Exit.splits)
next
  assume t: "slack_callTool api name arguments run0 = (Thrown f, run1)"
  then show "run1 = run0"
    by (auto simp: slack_callTool_def returned_def split: if_splits sum.splits)
  from t show "(\<exists>is. f = ZodError is)
            \<or> f = SlackMcpError (McpError MethodNotFound (''Unknown tool: '' @ name))"
    by (auto simp: slack_callTool_def returned_def split: if_splits sum.splits)
qed

theorem slack_faults_caught_by_handleResult_witness:
  "handleResult (getLatestMessage (demo_client False True (Resolved ok_response)) ''C404'')
     ([], [])
     = (error_response ''Channel info failed: Error: An API error occurred: channel_not_found'',
        ([], [AuthTest, ConversationsInfo ''C404'']))
   \<and> slack_callTool (demo_client False True (Resolved ok_response)) ''get_latest_message''
       (Some []) ([''U1''], [])
       = (Thrown (ZodError [ZodIssue [''channel''] ''string'' ''undefined'']), ([''U1''], []))"
proof -
  let ?api = "demo_client False True (Resolved ok_response)"
  let ?eff = "getLatestMessage ?api ''C404''"
  let ?e = "SlackError ''Channel info failed: Error: An API error occurred: channel_not_found''"
  let ?f = "ZodError [ZodIssue [''channel''] ''string'' ''undefined'']"
  have run: "?eff ([], []) = (Failure ?e, ([], [AuthTest, ConversationsInfo ''C404'']))"
    by (simp add: getLatestMessage_def ensureChannelAccess_def effect_defs demo_client_def)
  have thrown: "slack_callTool ?api ''get_latest_message'' (Some []) ([''U1''], [])
                  = (Thrown ?f, ([''U1''], []))"
    by (simp add: slack_callTool_def GetLatestMessageSchema_parse_def)
  show ?thesis
    using slack_faults_caught_by_handleResult
      [where effect = ?eff and run = "([], [])" and e = ?e and api = ?api
         and name = "''get_latest_message''" and arguments = "Some []"
         and ?run0.0 = "([''U1''], [])" and f = ?f and ?run1.0 = "([''U1''], [])"]
      run thrown
    by simp
qed

text \<open>
  The sentence as the specification words it has every fault caught and turned into a
  failure of kind Internal. In the memory-store server \<open>get_value\<close> of a missing key
  leaves the handler as a thrown failure; in the Slack server the fault that is caught
  becomes a response with the error flag and the text alone.
\<close>

theorem memory_fault_escapes_handleEffect:
  "memory_callTool ''get_value'' (Some [(''key'', ''missing'')]) MemoryStoreImpl_new
     = (Thrown (FiberFailure (McpError InvalidRequest (KeyNotFound (Some ''missing'')))), [])
   \<and> fst (handleResult (getLatestMessage (demo_client False True (Resolved ok_response)) ''C404'')
            ([], []))
       = \<lparr>slack_content =
            ErrorText ''Slack API error: Channel info failed: Error: An API error occurred: channel_not_found'',
          isError = Some True\<rparr>"
  by (simp add: memory_callTool_def MemoryStoreImpl_get_def MemoryStoreImpl_new_def Map_get_def
      handleEffect_def handleResult_def getLatestMessage_def ensureChannelAccess_def effect_defs
      demo_client_def)

text \<open>
  C6. In the Slack server a call that gives an arguments object in which a field that
  the tool's schema requires is left out (or is not a string) makes the handler throw
  the error of the validation library. Its issues are exactly the failing required
  fields, one issue for each in the order of the schema, naming the field by its path
  with the type expected and the type received; the field left out is among them, as
  received \<open>undefined\<close>. A call with no arguments object at all makes the handler throw
  the error with the one issue for the whole object. Either way no call of the client is
  made: the workspace and the list of calls are unchanged.
\<close>

theorem slack_missing_required_argument:
  "((name, required) \<in> set slack_tools \<and> field \<in> set required
      \<and> \<not> is_JString (map_of obj field)
      \<longrightarrow> slack_callTool api name (Some obj) run
            = (Thrown (ZodError
                 (map (\<lambda>f. ZodIssue [f] ''string'' (typeName (map_of obj f)))
                    (filter (\<lambda>f. \<not> is_JString (map_of obj f)) required))), run)
          \<and> ZodIssue [field] ''string'' (typeName (map_of obj field))
              \<in> set (map (\<lambda>f. ZodIssue [f] ''string'' (typeName (map_of obj f)))
                        (filter (\<lambda>f. \<not> is_JString (map_of obj f)) required)))
   \<and> (name \<in> set (map fst slack_tools)
      \<longrightarrow> slack_callTool api name None run
            = (Thrown (ZodError [ZodIssue [] ''object'' ''undefined'']), run))"
proof (intro conjI impI)
  assume a: "(name, required) \<in> set slack_tools \<and> field \<in> set required
               \<and> \<not> is_JString (map_of obj field)"
  then show "ZodIssue [field] ''string'' (typeName (map_of obj field))
              \<in> set (map (\<lambda>f. ZodIssue [f] ''string'' (typeName (map_of obj f)))
                        (filter (\<lambda>f. \<not> is_JString (map_of obj f)) required))"
    by auto
  from a consider
      (send) "name = ''send_message''" "required = [''channel'', ''text'']"
    | (latest) "name = ''get_latest_message''" "required = [''channel'']" "field = ''channel''"
    by (auto simp: slack_tools_def)
  then show "slack_callTool api name (Some obj) run
            = (Thrown (ZodError
                 (map (\<lambda>f. ZodIssue [f] ''string'' (typeName (map_of obj f)))
                    (filter (\<lambda>f. \<not> is_JString (map_of obj f)) required))), run)"
  proof cases
    case send
    with a have some: "\<not> is_JString (map_of obj ''channel'') \<or> \<not> is_JString (map_of obj ''text'')"
      by auto
    show ?thesis
    proof (cases "is_JString (map_of obj ''channel'')")
      case True
      with some have t: "\<not> is_JString (map_of obj ''text'')" by simp
      from z_string_accepts [OF True, of "''channel''"] z_string_refuses [OF t, of "''text''"]
      show ?thesis
        using send True t
        by (auto simp: slack_callTool_def SendMessageSchema_parse_def)
    next
      case False
      note c = z_string_refuses [OF False, of "''channel''"]
      show ?thesis
      proof (cases "is_JString (map_of obj ''text'')")
        case True
        from z_string_accepts [OF True, of "''text''"] c show ?thesis
          using send False True
          by (auto simp: slack_callTool_def SendMessageSchema_parse_def)
      next
        case t: False
        from z_string_refuses [OF t, of "''text''"] c show ?thesis
          using send False t
          by (auto simp: slack_callTool_def SendMessageSchema_parse_def)
      qed
    qed
  next
    case latest
    with a have "\<not> is_JString (map_of obj ''channel'')" by simp
    from z_string_refuses [OF this, of "''channel''"] this show ?thesis
      using latest by (simp add: slack_callTool_def GetLatestMessageSchema_parse_def)
  qed
next
  assume "name \<in> set (map fst slack_tools)"
  then show "slack_callTool api name None run
            = (Thrown (ZodError [ZodIssue [] ''object'' ''undefined'']), run)"
    by (auto simp: slack_tools_def slack_callTool_def SendMessageSchema_parse_def
        ListChannelsSchema_parse_def ListUsersSchema_parse_def GetLatestMessageSchema_parse_def)
qed

theorem slack_missing_required_argument_witness:
  "slack_callTool (demo_client False True (Resolved ok_response)) ''send_message''
     (Some [(''channel'', JNumber 5)]) ([], [])
     = (Thrown (ZodError [ZodIssue [''channel''] ''string'' ''number'',
                          ZodIssue [''text''] ''string'' ''undefined'']), ([], []))
   \<and> slack_callTool (demo_client False True (Resolved ok_response)) ''send_message''
       (Some [(''channel'', JString ''C1'')]) ([], [])
       = (Thrown (ZodError [ZodIssue [''text''] ''string'' ''undefined'']), ([], []))
   \<and> slack_callTool (demo_client False True (Resolved ok_response)) ''get_latest_message''
       None ([], [])
       = (Thrown (ZodError [ZodIssue [] ''object'' ''undefined'']), ([], []))"
proof -
  let ?api = "demo_client False True (Resolved ok_response)"
  have 1: "slack_callTool ?api ''send_message'' (Some [(''channel'', JNumber 5)]) ([], [])
     = (Thrown (ZodError [ZodIssue [''channel''] ''string'' ''number'',
                          ZodIssue [''text''] ''string'' ''undefined'']), ([], []))"
    using slack_missing_required_argument
      [of "''send_message''" "[''channel'', ''text'']" "''text''"
          "[(''channel'', JNumber 5)]" ?api "([], [])"]
    by (simp add: slack_tools_def)
  have 2: "slack_callTool ?api ''send_message'' (Some [(''channel'', JString ''C1'')]) ([], [])
       = (Thrown (ZodError [ZodIssue [''text''] ''string'' ''undefined'']), ([], []))"
    using slack_missing_required_argument
      [of "''send_message''" "[''channel'', ''text'']" "''text''"
          "[(''channel'', JString ''C1'')]" ?api "([], [])"]
    by (simp add: slack_tools_def)
  have 3: "slack_callTool ?api ''get_latest_message'' None ([], [])
       = (Thrown (ZodError [ZodIssue [] ''object'' ''undefined'']), ([], []))"
    using slack_missing_required_argument
      [of "''get_latest_message''" "[''channel'']" "''channel''" "[]" ?api "([], [])"]
    by (simp add: slack_tools_def)
  from 1 2 3 show ?thesis by simp
qed

text \<open>
  The sentence as the specification words it has every tool answer a missing required
  argument with InvalidParams and no side effect. The memory-store server's
  \<open>set_value\<close>, called without \<open>value\<close>, stores \<open>undefined\<close> under the key and returns
  the confirmation; the Slack server's \<open>send_message\<close>, called without \<open>text\<close>, throws
  the validation error and not an \<open>McpError\<close> with the code \<open>InvalidParams\<close>.
\<close>

theorem set_value_without_value_mutates:
  "memory_callTool ''set_value'' (Some [(''key'', ''k'')]) MemoryStoreImpl_new
     = (Returned \<lparr>content = SavedMessage (Some ''k'') None\<rparr>, [(Some ''k'', None)])
   \<and> slack_callTool (demo_client False True (Resolved ok_response)) ''send_message''
       (Some [(''channel'', JString ''C1'')]) ([], [])
       = (Thrown (ZodError [ZodIssue [''text''] ''string'' ''undefined'']), ([], []))"
  by (simp add: memory_callTool_def MemoryStoreImpl_set_def MemoryStoreImpl_new_def
      handleEffect_def Let_def slack_callTool_def SendMessageSchema_parse_def)

end
